theory Spec2Isabelle
  imports Complex_Main
begin

section \<open>Strings\<close>

text \<open>
  A JavaScript string is modelled as a \<^typ>\<open>string\<close> holding its UTF-8 bytes.
  \<^verbatim>\<open>String.prototype.trim\<close> removes white space and line terminators from both ends;
  each of them is one code point, listed here by its UTF-8 encoding.
\<close>

definition whitespace :: "string list" where
  "whitespace =
    [[CHR 0x09], [CHR 0x0A], [CHR 0x0B], [CHR 0x0C], [CHR 0x0D], [CHR 0x20],
     [CHR 0xC2, CHR 0xA0],
     [CHR 0xE1, CHR 0x9A, CHR 0x80],
     [CHR 0xE2, CHR 0x80, CHR 0x80], [CHR 0xE2, CHR 0x80, CHR 0x81],
     [CHR 0xE2, CHR 0x80, CHR 0x82], [CHR 0xE2, CHR 0x80, CHR 0x83],
     [CHR 0xE2, CHR 0x80, CHR 0x84], [CHR 0xE2, CHR 0x80, CHR 0x85],
     [CHR 0xE2, CHR 0x80, CHR 0x86], [CHR 0xE2, CHR 0x80, CHR 0x87],
     [CHR 0xE2, CHR 0x80, CHR 0x88], [CHR 0xE2, CHR 0x80, CHR 0x89],
     [CHR 0xE2, CHR 0x80, CHR 0x8A],
     [CHR 0xE2, CHR 0x80, CHR 0xA8], [CHR 0xE2, CHR 0x80, CHR 0xA9],
     [CHR 0xE2, CHR 0x80, CHR 0xAF],
     [CHR 0xE2, CHR 0x81, CHR 0x9F],
     [CHR 0xE3, CHR 0x80, CHR 0x80],
     [CHR 0xEF, CHR 0xBB, CHR 0xBF]]"

text \<open>The rest of \<open>s\<close> after the first token of \<open>toks\<close> it starts with, if any.\<close>

fun strip_token :: "string list \<Rightarrow> string \<Rightarrow> string option" where
  "strip_token [] s = None"
| "strip_token (t # ts) s =
     (if t \<noteq> [] \<and> take (length t) s = t then Some (drop (length t) s)
      else strip_token ts s)"

lemma strip_token_shorter: "strip_token toks s = Some s' \<Longrightarrow> length s' < length s"
proof (induction toks)
  case Nil
  then show ?case by simp
next
  case (Cons t ts)
  show ?case
  proof (cases "t \<noteq> [] \<and> take (length t) s = t")
    case True
    then have rest: "s' = drop (length t) s" using Cons.prems by simp
    have pos: "0 < length t" using True by simp
    have "length (take (length t) s) = length t" using True by simp
    then have le: "length t \<le> length s" by simp
    have "length s' = length s - length t" using rest by simp
    with pos le show ?thesis by linarith
  next
    case False
    then have "strip_token ts s = Some s'" using Cons.prems by auto
    then show ?thesis by (rule Cons.IH)
  qed
qed

function strip_all :: "string list \<Rightarrow> string \<Rightarrow> string" where
  "strip_all toks s =
     (case strip_token toks s of None \<Rightarrow> s | Some s' \<Rightarrow> strip_all toks s')"
  by pat_completeness auto
termination
  by (relation "measure (\<lambda>(toks, s). length s)") (auto simp: strip_token_shorter)

declare strip_all.simps [simp del]

definition trimStart :: "string \<Rightarrow> string" where
  "trimStart s = strip_all whitespace s"

definition trimEnd :: "string \<Rightarrow> string" where
  "trimEnd s = rev (strip_all (map rev whitespace) (rev s))"

definition trim :: "string \<Rightarrow> string" where
  "trim s = trimEnd (trimStart s)"

text \<open>Truthiness of a string: every string but the empty one.\<close>

definition truthy :: "string \<Rightarrow> bool" where
  "truthy s = (s \<noteq> [])"

text \<open>\<^verbatim>\<open>a || b\<close> on strings.\<close>

definition or_else :: "string \<Rightarrow> string \<Rightarrow> string" where
  "or_else a b = (if truthy a then a else b)"

text \<open>A number rendered in decimal, as a template literal does.\<close>

definition digit :: "nat \<Rightarrow> char" where
  "digit d = char_of (of_char (CHR ''0'') + d)"

fun show_nat :: "nat \<Rightarrow> string" where
  "show_nat n = (if n < 10 then [digit n] else show_nat (n div 10) @ [digit (n mod 10)])"

declare show_nat.simps [simp del]

text \<open>\<^verbatim>\<open>s.charAt(0).toUpperCase() + s.slice(1)\<close>, on the ASCII letters.\<close>

definition toUpperCase :: "char \<Rightarrow> char" where
  "toUpperCase c =
     (let n = (of_char c :: nat)
      in if 97 \<le> n \<and> n \<le> 122 then char_of (n - 32) else c)"

fun capitalize :: "string \<Rightarrow> string" where
  "capitalize [] = []"
| "capitalize (c # cs) = toUpperCase c # cs"


section \<open>Data\<close>

text \<open>
  A thrown value: an \<^verbatim>\<open>Error\<close> (or \<^verbatim>\<open>DOMException\<close>) with its name and message. The
  message of an error that the browser throws, not the source, differs between engines;
  the model fixes one text for each.
\<close>

datatype js_error = JsError (err_name: string) (err_message: string)

datatype sender = User | Bot

text \<open>
  A timeline entry. \<^verbatim>\<open>new Date().toISOString()\<close> is modelled by the clock's value in
  milliseconds; a field the object literal does not set is \<open>None\<close> (or \<open>False\<close> for
  \<^verbatim>\<open>isError\<close>, which is only ever read for its truthiness).
\<close>

record message =
  m_text :: string
  m_sender :: sender
  m_timestamp :: nat
  m_role :: "string option"
  m_confidence :: "real option"
  m_isError :: bool

record settings =
  notifications :: bool
  soundEnabled :: bool
  theme :: string

datatype connection = Connected | Connecting | Error

datatype severity = Success | Info | Failure

text \<open>A toast: its kind, its text and the \<^verbatim>\<open>autoClose\<close> option when one is given.\<close>

datatype toast = Toast severity string "nat option"

datatype log =
    WarnReading string js_error
  | WarnSetting string js_error
  | ErrorSending js_error

section \<open>useLocalStorage\<close>

text \<open>
  The text stored under a key of \<^verbatim>\<open>localStorage\<close>: the JSON text of a value, or some
  other text, which \<^verbatim>\<open>JSON.parse\<close> rejects.
\<close>

datatype 'a item = Json 'a | Text string

text \<open>What a caller passes to the setter: a value, or a function of the previous value.\<close>

datatype 'a new_value = Plain 'a | Updater "'a \<Rightarrow> 'a"

text \<open>
  One use of the hook: its key, the React state \<open>val\<close> and the entry of
  \<^verbatim>\<open>localStorage\<close> under the key. The three keys of the application are distinct, so
  each hook owns its entry.
\<close>

record 'a hook =
  key :: string
  val :: 'a
  entry :: "'a item option"

text \<open>React's state setter: a function argument is applied to the previous state.\<close>

fun setValue :: "'a new_value \<Rightarrow> 'a \<Rightarrow> 'a" where
  "setValue (Plain v) prev = v"
| "setValue (Updater f) prev = f prev"

text \<open>\<^verbatim>\<open>JSON.stringify\<close>: the JSON text of a value; \<^verbatim>\<open>undefined\<close> (\<open>None\<close>) for a function.\<close>

fun stringify :: "'a new_value \<Rightarrow> 'a item option" where
  "stringify (Plain v) = Some (Json v)"
| "stringify (Updater f) = None"

text \<open>
  \<^verbatim>\<open>localStorage.setItem(key, x)\<close> stores the string of \<open>x\<close>, which for
  \<^verbatim>\<open>undefined\<close> is the text \<^verbatim>\<open>undefined\<close>, and returns the text now under the key; it
  throws when the storage refuses the write.
\<close>

definition setItem :: "bool \<Rightarrow> 'a item option \<Rightarrow> js_error + 'a item" where
  "setItem writable x =
     (if writable then Inr (case x of None \<Rightarrow> Text ''undefined'' | Some it \<Rightarrow> it)
      else Inl (JsError ''QuotaExceededError'' ''The quota has been exceeded.''))"

definition getItem :: "bool \<Rightarrow> 'a item option \<Rightarrow> js_error + 'a item option" where
  "getItem readable en =
     (if readable then Inr en
      else Inl (JsError ''SecurityError'' ''The operation is insecure.''))"

fun parse :: "'a item \<Rightarrow> js_error + 'a" where
  "parse (Json v) = Inr v"
| "parse (Text s) = Inl (JsError ''SyntaxError'' (''Unexpected token in JSON: '' @ s))"

fun item_truthy :: "'a item \<Rightarrow> bool" where
  "item_truthy (Json v) = True"
| "item_truthy (Text s) = truthy s"

text \<open>The initial state of the hook, with the warning its \<^verbatim>\<open>catch\<close> logs.\<close>

definition load :: "bool \<Rightarrow> string \<Rightarrow> 'a \<Rightarrow> 'a item option \<Rightarrow> 'a \<times> log list" where
  "load readable k defaultValue en =
     (case getItem readable en of
        Inl e \<Rightarrow> (defaultValue, [WarnReading k e])
      | Inr None \<Rightarrow> (defaultValue, [])
      | Inr (Some it) \<Rightarrow>
          if item_truthy it then
            (case parse it of
               Inl e \<Rightarrow> (defaultValue, [WarnReading k e])
             | Inr v \<Rightarrow> (v, []))
          else (defaultValue, []))"

text \<open>
  \<^verbatim>\<open>setStoredValue\<close>: inside the \<^verbatim>\<open>try\<close>, first \<^verbatim>\<open>setValue(newValue)\<close>, then the write;
  the \<^verbatim>\<open>catch\<close> logs a warning and returns.
\<close>

definition setStoredValue :: "bool \<Rightarrow> 'a new_value \<Rightarrow> 'a hook \<Rightarrow> 'a hook \<times> log list" where
  "setStoredValue writable newValue h =
     (let h1 = h\<lparr>val := setValue newValue (val h)\<rparr>
      in case setItem writable (stringify newValue) of
           Inr it \<Rightarrow> (h1\<lparr>entry := Some it\<rparr>, [])
         | Inl e \<Rightarrow> (h1, [WarnSetting (key h1) e]))"

section \<open>The remote service, as one exchange sees it\<close>

text \<open>The parsed JSON payload of a reply.\<close>

record payload =
  response :: string
  detected_role :: "string option"
  confidence :: "real option"

text \<open>
  What \<^verbatim>\<open>response.json()\<close> gives, as soon as the response has arrived: it rejects with a
  \<^verbatim>\<open>SyntaxError\<close>, or it resolves to \<^verbatim>\<open>null\<close>, or to a payload.
\<close>

datatype body = Unparsable string | Null_payload | Payload payload

record http_response =
  status :: nat
  statusText :: string
  body :: body

text \<open>\<^verbatim>\<open>response.ok\<close>: the status is in the range 200 to 299.\<close>

definition ok :: "http_response \<Rightarrow> bool" where
  "ok resp = (200 \<le> status resp \<and> status resp \<le> 299)"

text \<open>
  How \<^verbatim>\<open>fetch\<close> settles when nothing aborts it: it rejects with a \<^verbatim>\<open>TypeError\<close> (a
  network failure) or resolves to a response.
\<close>

datatype settle = Rejects string | Resolves http_response

text \<open>
  The environment of one exchange: the milliseconds after which \<^verbatim>\<open>fetch\<close> settles of
  its own (\<open>None\<close>: the remote never responds), how it settles then, and
  \<^verbatim>\<open>navigator.onLine\<close> when the \<^verbatim>\<open>catch\<close> block runs.
\<close>

record remote =
  latency :: "nat option"
  settles :: settle
  onLine :: bool

text \<open>The body of the outbound request.\<close>

record request =
  q_message :: string
  q_role :: "string option"
  q_timestamp :: nat

text \<open>What \<^verbatim>\<open>sendMessage\<close> returns.\<close>

record reply =
  r_text :: string
  r_role :: "string option"
  r_confidence :: "real option"
  r_timestamp :: nat

section \<open>The application state\<close>

text \<open>
  The state of \<^verbatim>\<open>App\<close> and of \<^verbatim>\<open>useChatAPI\<close>, with the part of the browser they act on:
  the clock \<open>now\<close> (milliseconds), whether \<^verbatim>\<open>localStorage\<close> can be written, the requests
  sent, the toasts shown, the console and the number of sounds played.
\<close>

record app =
  isOpen :: bool
  messagesLS :: "message list hook"
  inputValue :: string
  userRoleLS :: "string option hook"
  chatSettingsLS :: "settings hook"
  isLoading :: bool
  connectionStatus :: connection
  now :: nat
  writable :: bool
  sent :: "request list"
  toasts :: "toast list"
  console :: "log list"
  sounds :: nat

definition messages :: "app \<Rightarrow> message list" where
  "messages st = val (messagesLS st)"

definition userRole :: "app \<Rightarrow> string option" where
  "userRole st = val (userRoleLS st)"

definition chatSettings :: "app \<Rightarrow> settings" where
  "chatSettings st = val (chatSettingsLS st)"

definition setMessages :: "message list new_value \<Rightarrow> app \<Rightarrow> app" where
  "setMessages newValue st =
     (let (h, w) = setStoredValue (writable st) newValue (messagesLS st)
      in st\<lparr>messagesLS := h, console := console st @ w\<rparr>)"

definition setUserRole :: "string option new_value \<Rightarrow> app \<Rightarrow> app" where
  "setUserRole newValue st =
     (let (h, w) = setStoredValue (writable st) newValue (userRoleLS st)
      in st\<lparr>userRoleLS := h, console := console st @ w\<rparr>)"

definition setChatSettings :: "settings new_value \<Rightarrow> app \<Rightarrow> app" where
  "setChatSettings newValue st =
     (let (h, w) = setStoredValue (writable st) newValue (chatSettingsLS st)
      in st\<lparr>chatSettingsLS := h, console := console st @ w\<rparr>)"

definition toast :: "severity \<Rightarrow> string \<Rightarrow> nat option \<Rightarrow> app \<Rightarrow> app" where
  "toast sev msg autoClose st = st\<lparr>toasts := toasts st @ [Toast sev msg autoClose]\<rparr>"

text \<open>
  The browser a page is loaded in: the three entries of \<^verbatim>\<open>localStorage\<close>, whether it can
  be read and written, and the time.
\<close>

record browser =
  chatMessages_entry :: "message list item option"
  userRole_entry :: "string option item option"
  chatSettings_entry :: "settings item option"
  storage_readable :: bool
  storage_writable :: bool
  time :: nat

definition default_settings :: settings where
  "default_settings = \<lparr>notifications = True, soundEnabled = True, theme = ''light''\<rparr>"

text \<open>The state after the first render of \<^verbatim>\<open>App\<close>.\<close>

definition mount :: "browser \<Rightarrow> app" where
  "mount b =
     (let (ms, w1) = load (storage_readable b) ''chatMessages'' [] (chatMessages_entry b);
          (ur, w2) = load (storage_readable b) ''userRole'' None (userRole_entry b);
          (cs, w3) = load (storage_readable b) ''chatSettings'' default_settings
                       (chatSettings_entry b)
      in \<lparr>isOpen = False,
          messagesLS = \<lparr>key = ''chatMessages'', val = ms, entry = chatMessages_entry b\<rparr>,
          inputValue = [],
          userRoleLS = \<lparr>key = ''userRole'', val = ur, entry = userRole_entry b\<rparr>,
          chatSettingsLS = \<lparr>key = ''chatSettings'', val = cs, entry = chatSettings_entry b\<rparr>,
          isLoading = False,
          connectionStatus = Connected,
          now = time b,
          writable = storage_writable b,
          sent = [],
          toasts = [],
          console = w1 @ w2 @ w3,
          sounds = 0\<rparr>)"

section \<open>useChatAPI\<close>

text \<open>The delay of the timer that aborts the request, in milliseconds.\<close>

definition timeout_ms :: nat where
  "timeout_ms = 30000"

text \<open>
  The timer aborts the request when \<^verbatim>\<open>fetch\<close> has not settled before it fires; the call
  then resumes when the timer fires, and otherwise when \<^verbatim>\<open>fetch\<close> settles.
\<close>

definition aborted :: "remote \<Rightarrow> bool" where
  "aborted r = (case latency r of None \<Rightarrow> True | Some t \<Rightarrow> timeout_ms \<le> t)"

definition elapsed :: "remote \<Rightarrow> nat" where
  "elapsed r = (case latency r of None \<Rightarrow> timeout_ms | Some t \<Rightarrow> min t timeout_ms)"

definition await_fetch :: "remote \<Rightarrow> js_error + http_response" where
  "await_fetch r =
     (if aborted r then Inl (JsError ''AbortError'' ''signal is aborted without reason'')
      else case settles r of
             Rejects m \<Rightarrow> Inl (JsError ''TypeError'' m)
           | Resolves resp \<Rightarrow> Inr resp)"

text \<open>\<^verbatim>\<open>data.confidence || null\<close>: a confidence of zero becomes \<^verbatim>\<open>null\<close>.\<close>

fun or_null :: "real option \<Rightarrow> real option" where
  "or_null None = None"
| "or_null (Some c) = (if c = 0 then None else Some c)"

text \<open>
  \<^verbatim>\<open>sendMessage\<close> up to its \<^verbatim>\<open>await fetch\<close>: the busy indicator, the connection status,
  and the request, whose body carries the trimmed message and the role.
\<close>

definition sendMessage_begin :: "string \<Rightarrow> string option \<Rightarrow> app \<Rightarrow> app" where
  "sendMessage_begin message role st =
     st\<lparr>isLoading := True,
        connectionStatus := Connecting,
        sent := sent st @ [\<lparr>q_message = trim message, q_role = role, q_timestamp = now st\<rparr>]\<rparr>"

text \<open>
  The rest of the \<^verbatim>\<open>try\<close> block: what it returns or throws, and the state then. Reading
  \<^verbatim>\<open>data.response\<close> of a \<^verbatim>\<open>null\<close> payload throws a \<^verbatim>\<open>TypeError\<close>, after the status was set.
\<close>

definition sendMessage_try :: "remote \<Rightarrow> app \<Rightarrow> (js_error + reply) \<times> app" where
  "sendMessage_try r st =
     (case await_fetch r of
        Inl e \<Rightarrow> (Inl e, st)
      | Inr resp \<Rightarrow>
          if \<not> ok resp then
            (Inl (JsError ''Error''
               (''Server error: '' @ show_nat (status resp) @ '' '' @ statusText resp)), st)
          else
            (case body resp of
               Unparsable m \<Rightarrow> (Inl (JsError ''SyntaxError'' m), st)
             | Null_payload \<Rightarrow>
                 (Inl (JsError ''TypeError'' ''Cannot read properties of null''),
                  st\<lparr>connectionStatus := Connected\<rparr>)
             | Payload d \<Rightarrow>
                 (Inr \<lparr>r_text = response d, r_role = detected_role d,
                       r_confidence = or_null (confidence d), r_timestamp = now st\<rparr>,
                  st\<lparr>connectionStatus := Connected\<rparr>)))"

text \<open>The \<^verbatim>\<open>catch\<close> block: the error it throws, and the state then.\<close>

definition sendMessage_catch :: "remote \<Rightarrow> js_error \<Rightarrow> app \<Rightarrow> js_error \<times> app" where
  "sendMessage_catch r e st =
     (let st1 = st\<lparr>connectionStatus := Error\<rparr>
      in if err_name e = ''AbortError'' then
           (JsError ''Error'' ''Request timed out. Please try again.'', st1)
         else if \<not> onLine r then
           (JsError ''Error'' ''No internet connection. Please check your network.'', st1)
         else
           (JsError ''Error''
              (or_else (err_message e) ''Failed to connect to server. Please try again.''), st1))"

text \<open>
  \<^verbatim>\<open>sendMessage\<close> from the moment its \<^verbatim>\<open>await\<close> resumes, for a request started at time
  \<open>started\<close>: the clock has advanced, the \<^verbatim>\<open>try\<close> block ends, the \<^verbatim>\<open>catch\<close> block runs
  on an error, and \<^verbatim>\<open>finally\<close> clears the busy indicator.
\<close>

definition sendMessage_settle :: "remote \<Rightarrow> nat \<Rightarrow> app \<Rightarrow> (js_error + reply) \<times> app" where
  "sendMessage_settle r started st =
     (let st0 = st\<lparr>now := max (now st) (started + elapsed r)\<rparr>;
          (res, st1) = sendMessage_try r st0;
          (res', st2) =
            (case res of
               Inr botResponse \<Rightarrow> (Inr botResponse, st1)
             | Inl e \<Rightarrow> (let (e', st') = sendMessage_catch r e st1 in (Inl e', st')))
      in (res', st2\<lparr>isLoading := False\<rparr>))"

section \<open>App\<close>

definition welcome_text :: string where
  "welcome_text =
     [CHR 0xF0, CHR 0x9F, CHR 0x91, CHR 0x8B] @
     '' Welcome to Modern College Pune! I'm here to help you with admissions, courses, and general information. How can I assist you today?''"

definition welcomeMessage :: "nat \<Rightarrow> message" where
  "welcomeMessage t =
     \<lparr>m_text = welcome_text, m_sender = Bot, m_timestamp = t,
      m_role = None, m_confidence = None, m_isError = False\<rparr>"

text \<open>
  A handler reads \<^verbatim>\<open>isOpen\<close> and \<^verbatim>\<open>messages\<close> as they were when the handler was made, that
  is, in the state the event arrives in.
\<close>

definition toggleChatDialog :: "app \<Rightarrow> app" where
  "toggleChatDialog st =
     (let st1 = st\<lparr>isOpen := \<not> isOpen st\<rparr>
      in if \<not> isOpen st then
           (if length (messages st) = 0 then setMessages (Plain [welcomeMessage (now st)]) st1
            else st1)
         else st1)"

definition handleInputChange :: "string \<Rightarrow> app \<Rightarrow> app" where
  "handleInputChange v st = st\<lparr>inputValue := v\<rparr>"

definition playNotificationSound :: "bool \<Rightarrow> app \<Rightarrow> app" where
  "playNotificationSound enabled st = (if enabled then st\<lparr>sounds := Suc (sounds st)\<rparr> else st)"

text \<open>
  What the continuation of \<^verbatim>\<open>handleSendMessage\<close> holds while the exchange is in flight:
  the \<^verbatim>\<open>userRole\<close> and the sound setting its closure captured, and the time the request
  was started.
\<close>

record pending =
  p_userRole :: "string option"
  p_soundEnabled :: bool
  p_started :: nat

text \<open>
  \<^verbatim>\<open>handleSendMessage\<close> up to its \<^verbatim>\<open>await\<close>. The argument is \<open>None\<close> when the function is
  called with no argument. No pending continuation means that the function returned.
\<close>

definition messageToSend :: "string option \<Rightarrow> app \<Rightarrow> string" where
  "messageToSend customMessage st =
     (case customMessage of Some m \<Rightarrow> m | None \<Rightarrow> inputValue st)"

definition userMessage :: "string \<Rightarrow> nat \<Rightarrow> message" where
  "userMessage txt t =
     \<lparr>m_text = txt, m_sender = User, m_timestamp = t,
      m_role = None, m_confidence = None, m_isError = False\<rparr>"

definition handleSendMessage_begin :: "string option \<Rightarrow> app \<Rightarrow> pending option \<times> app" where
  "handleSendMessage_begin customMessage st =
     (let msg = messageToSend customMessage st
      in if \<not> truthy (trim msg) then (None, st)
         else
           let um = userMessage msg (now st);
               st1 = setMessages (Updater (\<lambda>prevMessages. prevMessages @ [um])) st;
               st2 = st1\<lparr>inputValue := []\<rparr>;
               st3 = sendMessage_begin msg (userRole st) st2
           in (Some \<lparr>p_userRole = userRole st,
                     p_soundEnabled = soundEnabled (chatSettings st),
                     p_started = now st\<rparr>, st3))"

definition botMessage :: "reply \<Rightarrow> message" where
  "botMessage botResponse =
     \<lparr>m_text = r_text botResponse, m_sender = Bot,
      m_timestamp = r_timestamp botResponse, m_role = r_role botResponse,
      m_confidence = r_confidence botResponse, m_isError = False\<rparr>"

definition errorMessage :: "js_error \<Rightarrow> nat \<Rightarrow> message" where
  "errorMessage error t =
     \<lparr>m_text = or_else (err_message error)
                 ''Sorry, I encountered an error. Please try again later.'',
      m_sender = Bot, m_timestamp = t,
      m_role = None, m_confidence = None, m_isError = True\<rparr>"

text \<open>\<^verbatim>\<open>handleSendMessage\<close> from the moment \<^verbatim>\<open>sendMessage\<close> settles.\<close>

definition handleSendMessage_settle :: "remote \<Rightarrow> pending \<Rightarrow> app \<Rightarrow> app" where
  "handleSendMessage_settle r p st =
     (case sendMessage_settle r (p_started p) st of
        (Inr botResponse, st1) \<Rightarrow>
          let bm = botMessage botResponse;
              st2 = setMessages (Updater (\<lambda>prevMessages. prevMessages @ [bm])) st1;
              st3 = playNotificationSound (p_soundEnabled p) st2
          in (case r_role botResponse of
                None \<Rightarrow> st3
              | Some detected \<Rightarrow>
                  if truthy detected \<and> Some detected \<noteq> p_userRole p
                  then toast Info (''Detected context: '' @ detected) (Some 3000) st3
                  else st3)
      | (Inl error, st1) \<Rightarrow>
          let st2 = st1\<lparr>console := console st1 @ [ErrorSending error]\<rparr>;
              em = errorMessage error (now st2);
              st3 = setMessages (Updater (\<lambda>prevMessages. prevMessages @ [em])) st2
          in toast Failure (err_message error) (Some 5000) st3)"

text \<open>A send with no other event between its start and the end of its exchange.\<close>

definition handleSendMessage :: "string option \<Rightarrow> remote \<Rightarrow> app \<Rightarrow> app" where
  "handleSendMessage customMessage r st =
     (case handleSendMessage_begin customMessage st of
        (None, st') \<Rightarrow> st'
      | (Some p, st') \<Rightarrow> handleSendMessage_settle r p st')"

text \<open>The Enter key without Shift calls \<^verbatim>\<open>handleSendMessage\<close> with no argument.\<close>

definition handleKeyPress :: "string \<Rightarrow> bool \<Rightarrow> app \<Rightarrow> pending option \<times> app" where
  "handleKeyPress k shiftKey st =
     (if k = ''Enter'' \<and> \<not> shiftKey then handleSendMessage_begin None st else (None, st))"

definition clearChatHistory :: "app \<Rightarrow> app" where
  "clearChatHistory st = toast Info ''Chat history cleared'' None (setMessages (Plain []) st)"

section \<open>ChatDialog\<close>

text \<open>The dialog's own state; \<^verbatim>\<open>feedback\<close> maps a message index to like or dislike.\<close>

record dialog =
  role :: "string option"
  isMinimized :: bool
  showQuickReplies :: bool
  feedback :: "nat \<Rightarrow> string option"

definition initial_dialog :: dialog where
  "initial_dialog =
     \<lparr>role = None, isMinimized = False, showQuickReplies = True, feedback = (\<lambda>i. None)\<rparr>"

definition handleRoleSelect :: "string \<Rightarrow> app \<times> dialog \<Rightarrow> app \<times> dialog" where
  "handleRoleSelect selectedRole pg =
     (case pg of (a, d) \<Rightarrow>
        (toast Success (''Role selected: '' @ capitalize selectedRole) None a,
         d\<lparr>role := Some selectedRole\<rparr>))"

text \<open>
  The prop \<^verbatim>\<open>onSendMessage\<close> is \<^verbatim>\<open>handleSendMessage\<close>, a function of one parameter: the
  second argument of the dialog's calls is bound to nothing.
\<close>

definition onSendMessage :: "string \<Rightarrow> string option \<Rightarrow> app \<Rightarrow> pending option \<times> app" where
  "onSendMessage customMessage second_argument st =
     handleSendMessage_begin (Some customMessage) st"

text \<open>
  A click on the send button, which is disabled while loading or on a blank input, and on
  a preset question, disabled while loading.
\<close>

definition send_click :: "app \<times> dialog \<Rightarrow> pending option \<times> app \<times> dialog" where
  "send_click pg =
     (case pg of (a, d) \<Rightarrow>
        if isLoading a \<or> trim (inputValue a) = [] then (None, a, d)
        else let (p, a') = onSendMessage (inputValue a) (role d) a in (p, a', d))"

definition handlePresetClick :: "string \<Rightarrow> app \<times> dialog \<Rightarrow> pending option \<times> app \<times> dialog" where
  "handlePresetClick question pg =
     (case pg of (a, d) \<Rightarrow>
        if isLoading a then (None, a, d)
        else let (p, a') = onSendMessage question (role d) a
             in (p, a', d\<lparr>showQuickReplies := False\<rparr>))"

section \<open>The failure kinds of the specification\<close>

text \<open>
  The source throws an \<^verbatim>\<open>Error\<close> with a message. The specification names four failure
  kinds and the order in which they are checked; \<open>spec_classify\<close> follows its words, and
  \<open>failure_message\<close> is the message by which the source reports a kind.
\<close>

datatype failure = Timeout | Offline | ServerError nat string | Unknown string

fun failure_message :: "failure \<Rightarrow> string" where
  "failure_message Timeout = ''Request timed out. Please try again.''"
| "failure_message Offline = ''No internet connection. Please check your network.''"
| "failure_message (ServerError s t) = ''Server error: '' @ show_nat s @ '' '' @ t"
| "failure_message (Unknown m) = m"

text \<open>The status and status text of a response with a non-success status, if there is one.\<close>

definition rejected_status :: "remote \<Rightarrow> (nat \<times> string) option" where
  "rejected_status r =
     (case settles r of
        Rejects m \<Rightarrow> None
      | Resolves resp \<Rightarrow> if ok resp then None else Some (status resp, statusText resp))"

text \<open>The message of a transport or parsing failure.\<close>

definition underlying_message :: "remote \<Rightarrow> string" where
  "underlying_message r =
     (case settles r of
        Rejects m \<Rightarrow> m
      | Resolves resp \<Rightarrow>
          (case body resp of
             Unparsable m \<Rightarrow> m
           | Null_payload \<Rightarrow> ''Cannot read properties of null''
           | Payload d \<Rightarrow> []))"

definition spec_classify :: "remote \<Rightarrow> failure" where
  "spec_classify r =
     (if aborted r then Timeout
      else if \<not> onLine r then Offline
      else case rejected_status r of
             Some (s, t) \<Rightarrow> ServerError s t
           | None \<Rightarrow>
               Unknown (or_else (underlying_message r)
                          ''Failed to connect to server. Please try again.''))"

section \<open>Example inputs\<close>

text \<open>A first visit: nothing stored, storage working.\<close>

definition fresh_browser :: browser where
  "fresh_browser =
     \<lparr>chatMessages_entry = None, userRole_entry = None, chatSettings_entry = None,
      storage_readable = True, storage_writable = True, time = 1000\<rparr>"

text \<open>A visit of a user whose stored role is student.\<close>

definition student_browser :: browser where
  "student_browser = fresh_browser\<lparr>userRole_entry := Some (Json (Some ''student''))\<rparr>"

text \<open>A remote that never responds.\<close>

definition silent_remote :: remote where
  "silent_remote = \<lparr>latency = None, settles = Rejects [], onLine = True\<rparr>"

text \<open>A remote that answers with status 500 after 120 milliseconds.\<close>

definition failing_remote :: remote where
  "failing_remote =
     \<lparr>latency = Some 120,
      settles = Resolves \<lparr>status = 500, statusText = ''Internal Server Error'',
                          body = Unparsable ''Unexpected end of JSON input''\<rparr>,
      onLine = True\<rparr>"

text \<open>A remote that answers a payload with the given detected role after 120 milliseconds.\<close>

definition answering_remote :: "string option \<Rightarrow> remote" where
  "answering_remote detected =
     \<lparr>latency = Some 120,
      settles = Resolves \<lparr>status = 200, statusText = ''OK'',
                          body = Payload \<lparr>response = ''Hi!'', detected_role = detected,
                                          confidence = Some (9 / 10)\<rparr>\<rparr>,
      onLine = True\<rparr>"

section \<open>Auxiliary facts\<close>

lemma trim_blank: "trim ''   '' = []"
  by code_simp

lemma trim_hello: "trim ''  Hello  '' = ''Hello''"
  by code_simp

lemma trim_plain_hello: "trim ''Hello'' = ''Hello''"
  by code_simp

lemma show_nat_500: "show_nat 500 = ''500''"
  by code_simp

lemma or_else_nonempty: "a \<noteq> [] \<Longrightarrow> or_else a b = a"
  by (simp add: or_else_def truthy_def)

lemma messages_setMessages [simp]:
  "messages (setMessages nv st) = setValue nv (messages st)"
  by (simp add: setMessages_def setStoredValue_def setItem_def Let_def messages_def)

lemma setMessages_frame [simp]:
  "isOpen (setMessages nv st) = isOpen st"
  "inputValue (setMessages nv st) = inputValue st"
  "userRoleLS (setMessages nv st) = userRoleLS st"
  "chatSettingsLS (setMessages nv st) = chatSettingsLS st"
  "isLoading (setMessages nv st) = isLoading st"
  "connectionStatus (setMessages nv st) = connectionStatus st"
  "now (setMessages nv st) = now st"
  "writable (setMessages nv st) = writable st"
  "sent (setMessages nv st) = sent st"
  "toasts (setMessages nv st) = toasts st"
  "sounds (setMessages nv st) = sounds st"
  by (simp_all add: setMessages_def setStoredValue_def setItem_def Let_def)

lemma toast_frame [simp]:
  "isOpen (toast sev m ac st) = isOpen st"
  "inputValue (toast sev m ac st) = inputValue st"
  "messagesLS (toast sev m ac st) = messagesLS st"
  "userRoleLS (toast sev m ac st) = userRoleLS st"
  "chatSettingsLS (toast sev m ac st) = chatSettingsLS st"
  "isLoading (toast sev m ac st) = isLoading st"
  "connectionStatus (toast sev m ac st) = connectionStatus st"
  "now (toast sev m ac st) = now st"
  "sent (toast sev m ac st) = sent st"
  "toasts (toast sev m ac st) = toasts st @ [Toast sev m ac]"
  by (simp_all add: toast_def)

lemma messages_frame [simp]:
  "messages (st\<lparr>inputValue := v\<rparr>) = messages st"
  "messages (st\<lparr>console := c\<rparr>) = messages st"
  "messages (st\<lparr>isOpen := b\<rparr>) = messages st"
  "messages (toast sev m ac st) = messages st"
  "messages (playNotificationSound en st) = messages st"
  "messages (sendMessage_begin msg rl st) = messages st"
  by (simp_all add: messages_def toast_def playNotificationSound_def sendMessage_begin_def)

lemma messages_sendMessage_settle [simp]:
  "messages (snd (sendMessage_settle r t st)) = messages st"
  by (simp add: sendMessage_settle_def sendMessage_try_def sendMessage_catch_def Let_def
      messages_def split: prod.splits sum.splits body.splits settle.splits)

text \<open>The three parts of \<^verbatim>\<open>sendMessage\<close>, by what they return or throw.\<close>

lemma settle_fst:
  "fst (sendMessage_settle r t st) =
     (case fst (sendMessage_try r (st\<lparr>now := max (now st) (t + elapsed r)\<rparr>)) of
        Inr rep \<Rightarrow> Inr rep
      | Inl e \<Rightarrow> Inl (fst (sendMessage_catch r e
                 (snd (sendMessage_try r (st\<lparr>now := max (now st) (t + elapsed r)\<rparr>))))))"
  by (simp add: sendMessage_settle_def Let_def split: prod.splits sum.splits)

lemma catch_fst:
  "fst (sendMessage_catch r e st) =
     JsError ''Error''
       (if err_name e = ''AbortError'' then ''Request timed out. Please try again.''
        else if \<not> onLine r then ''No internet connection. Please check your network.''
        else or_else (err_message e) ''Failed to connect to server. Please try again.'')"
  by (simp add: sendMessage_catch_def Let_def)

lemma try_fst:
  "fst (sendMessage_try r st) =
     (if aborted r then Inl (JsError ''AbortError'' ''signal is aborted without reason'')
      else case settles r of
        Rejects m \<Rightarrow> Inl (JsError ''TypeError'' m)
      | Resolves resp \<Rightarrow>
          if \<not> ok resp then
            Inl (JsError ''Error''
               (''Server error: '' @ show_nat (status resp) @ '' '' @ statusText resp))
          else
            (case body resp of
               Unparsable m \<Rightarrow> Inl (JsError ''SyntaxError'' m)
             | Null_payload \<Rightarrow> Inl (JsError ''TypeError'' ''Cannot read properties of null'')
             | Payload d \<Rightarrow>
                 Inr \<lparr>r_text = response d, r_role = detected_role d,
                       r_confidence = or_null (confidence d), r_timestamp = now st\<rparr>))"
  by (simp add: sendMessage_try_def await_fetch_def split: settle.splits body.splits)

lemma settle_timeout:
  assumes "latency r = None"
  shows "sendMessage_settle r t st =
     (Inl (JsError ''Error'' ''Request timed out. Please try again.''),
      st\<lparr>now := max (now st) (t + 30000), connectionStatus := Error, isLoading := False\<rparr>)"
  using assms
  by (simp add: sendMessage_settle_def sendMessage_try_def await_fetch_def aborted_def
      elapsed_def timeout_ms_def sendMessage_catch_def Let_def)

text \<open>The two phases of \<^verbatim>\<open>handleSendMessage\<close>.\<close>

lemma begin_sends:
  assumes "trim (messageToSend cm st) \<noteq> []"
  shows "handleSendMessage_begin cm st =
     (Some \<lparr>p_userRole = userRole st, p_soundEnabled = soundEnabled (chatSettings st),
            p_started = now st\<rparr>,
      sendMessage_begin (messageToSend cm st) (userRole st)
        ((setMessages
            (Updater (\<lambda>prevMessages.
               prevMessages @ [userMessage (messageToSend cm st) (now st)])) st)
           \<lparr>inputValue := []\<rparr>))"
  using assms by (simp add: handleSendMessage_begin_def truthy_def Let_def)

lemma handle_settle_failure:
  assumes "sendMessage_settle r (p_started p) st = (Inl e, st1)"
  shows "handleSendMessage_settle r p st =
     toast Failure (err_message e) (Some 5000)
       (setMessages (Updater (\<lambda>prevMessages. prevMessages @ [errorMessage e (now st1)]))
          (st1\<lparr>console := console st1 @ [ErrorSending e]\<rparr>))"
  using assms by (simp add: handleSendMessage_settle_def Let_def)

lemma handle_settle_success:
  assumes "sendMessage_settle r (p_started p) st = (Inr rep, st1)"
  shows "handleSendMessage_settle r p st =
     (let st3 = playNotificationSound (p_soundEnabled p)
                  (setMessages (Updater (\<lambda>prevMessages. prevMessages @ [botMessage rep])) st1)
      in case r_role rep of
           None \<Rightarrow> st3
         | Some detected \<Rightarrow>
             if truthy detected \<and> Some detected \<noteq> p_userRole p
             then toast Info (''Detected context: '' @ detected) (Some 3000) st3
             else st3)"
  using assms by (simp add: handleSendMessage_settle_def Let_def)

lemma updater_entry:
  assumes "writable st"
  shows "entry (messagesLS (setMessages (Updater f) st)) = Some (Text ''undefined'')"
  using assms by (simp add: setMessages_def setStoredValue_def setItem_def Let_def)

lemma writable_sendMessage_settle:
  "writable (snd (sendMessage_settle r t st)) = writable st"
  by (simp add: sendMessage_settle_def sendMessage_try_def sendMessage_catch_def Let_def
      split: prod.splits sum.splits body.splits settle.splits)

lemma settle_entry:
  assumes "writable st"
  shows "entry (messagesLS (handleSendMessage_settle r p st)) = Some (Text ''undefined'')"
proof (cases "sendMessage_settle r (p_started p) st")
  case (Pair res st1)
  have w: "writable st1"
    using writable_sendMessage_settle [of r "p_started p" st] Pair assms by simp
  show ?thesis
  proof (cases res)
    case (Inl e)
    have "writable (st1\<lparr>console := console st1 @ [ErrorSending e]\<rparr>)"
      using w by simp
    then show ?thesis
      using handle_settle_failure [of r p st e st1] Pair Inl by (simp add: updater_entry)
  next
    case (Inr rep)
    then show ?thesis
      using handle_settle_success [of r p st rep st1] Pair w
      by (simp add: Let_def playNotificationSound_def updater_entry split: option.splits)
  qed
qed

section \<open>The claims\<close>

text \<open>
  C1, at its failing input: on a first visit the user opens the dialog, selects the role
  student there, types Hello and clicks the send button. The dialog holds the role
  student, and the one request sent carries the trimmed text with the role \<^verbatim>\<open>null\<close>: the
  role transmitted is \<^verbatim>\<open>userRole\<close> of \<^verbatim>\<open>App\<close>, which the dialog never sets.
\<close>

theorem C1_dialog_role_not_transmitted:
  "(case send_click
          (case handleRoleSelect ''student''
                  (toggleChatDialog (mount fresh_browser), initial_dialog) of
             (a, d) \<Rightarrow> (handleInputChange ''Hello'' a, d)) of
      (p, a, d) \<Rightarrow>
        role d = Some ''student''
        \<and> sent a = [\<lparr>q_message = ''Hello'', q_role = None, q_timestamp = 1000\<rparr>])"
proof -
  let ?a0 = "toggleChatDialog (mount fresh_browser)"
  let ?a1 = "handleInputChange ''Hello''
               (toast Success (''Role selected: '' @ capitalize ''student'') None ?a0)"
  let ?d1 = "initial_dialog\<lparr>role := Some ''student''\<rparr>"
  have a0: "userRole ?a0 = None" "now ?a0 = 1000" "sent ?a0 = []" "\<not> isLoading ?a0"
    by (simp_all add: toggleChatDialog_def mount_def fresh_browser_def load_def getItem_def
        userRole_def messages_def)
  have a1: "userRole ?a1 = None" "now ?a1 = 1000" "sent ?a1 = []" "\<not> isLoading ?a1"
    "inputValue ?a1 = ''Hello''"
    using a0 by (simp_all add: handleInputChange_def userRole_def)
  have ne: "trim (messageToSend (Some ''Hello'') ?a1) \<noteq> []"
    by (simp add: messageToSend_def trim_plain_hello)
  obtain q a2 where b: "handleSendMessage_begin (Some ''Hello'') ?a1 = (q, a2)"
    and s: "sent a2 = [\<lparr>q_message = ''Hello'', q_role = None, q_timestamp = 1000\<rparr>]"
    using begin_sends [OF ne] a1
    by (simp add: sendMessage_begin_def messageToSend_def trim_plain_hello)
  have "send_click (?a1, ?d1) = (q, a2, ?d1)"
    using a1 b by (simp add: send_click_def onSendMessage_def trim_plain_hello)
  then show ?thesis
    using s by (simp add: handleRoleSelect_def)
qed

text \<open>
  C2, as the specification states it: a failed storage write leaves the prior in-memory
  value intact. It does not: the setter has updated the React state before the write is
  attempted. Here the write fails and the value held is the new one.
\<close>

theorem C2_counterexample:
  "setItem False (stringify (Plain ''new'')) =
     Inl (JsError ''QuotaExceededError'' ''The quota has been exceeded.'')
   \<and> val (fst (setStoredValue False (Plain ''new'')
        \<lparr>key = ''k'', val = ''old'', entry = Some (Json ''old'')\<rparr>)) \<noteq> ''old''"
  by (simp add: setStoredValue_def setItem_def)

text \<open>
  C2, amended: \<^verbatim>\<open>setStoredValue\<close> returns normally on every input, the exception of a
  failed write being caught. When the write fails, the entry in storage is left as it was
  and one warning is logged, while the value held in memory is the new value.
\<close>

theorem C2_failed_save:
  assumes "setItem w (stringify newValue) = Inl e"
  shows "val (fst (setStoredValue w newValue h)) = setValue newValue (val h)
       \<and> entry (fst (setStoredValue w newValue h)) = entry h
       \<and> key (fst (setStoredValue w newValue h)) = key h
       \<and> snd (setStoredValue w newValue h) = [WarnSetting (key h) e]"
  using assms by (simp add: setStoredValue_def)

theorem C2_failed_save_witness:
  "setItem False (stringify (Plain ''new'')) =
     Inl (JsError ''QuotaExceededError'' ''The quota has been exceeded.'')
   \<and> val (fst (setStoredValue False (Plain ''new'')
        \<lparr>key = ''k'', val = ''old'', entry = Some (Json ''old'')\<rparr>)) = ''new''
   \<and> entry (fst (setStoredValue False (Plain ''new'')
        \<lparr>key = ''k'', val = ''old'', entry = Some (Json ''old'')\<rparr>)) = Some (Json ''old'')
   \<and> snd (setStoredValue False (Plain ''new'')
        \<lparr>key = ''k'', val = ''old'', entry = Some (Json ''old'')\<rparr>) =
       [WarnSetting ''k'' (JsError ''QuotaExceededError'' ''The quota has been exceeded.'')]"
proof -
  have w: "setItem False (stringify (Plain ''new'')) =
     Inl (JsError ''QuotaExceededError'' ''The quota has been exceeded.'')"
    by (simp add: setItem_def)
  show ?thesis
    using w C2_failed_save [OF w, of "\<lparr>key = ''k'', val = ''old'', entry = Some (Json ''old'')\<rparr>"]
    by simp
qed

text \<open>
  C3: when the remote never responds, the call of \<^verbatim>\<open>sendMessage\<close> made by a send settles
  with the timeout failure, 30000 milliseconds after the send; then the busy indicator is
  false and the timeline has grown by the user message and exactly one error message.
\<close>

theorem C3_timeout:
  assumes "latency r = None" and "trim (messageToSend cm st) \<noteq> []"
  shows "fst (sendMessage_settle r (now st) (snd (handleSendMessage_begin cm st))) =
           Inl (JsError ''Error'' (failure_message Timeout))
       \<and> now (handleSendMessage cm r st) = now st + 30000
       \<and> \<not> isLoading (handleSendMessage cm r st)
       \<and> messages (handleSendMessage cm r st) =
           messages st @
             [userMessage (messageToSend cm st) (now st),
              errorMessage (JsError ''Error'' (failure_message Timeout)) (now st + 30000)]
       \<and> m_isError (errorMessage (JsError ''Error'' (failure_message Timeout)) (now st + 30000))
       \<and> \<not> m_isError (userMessage (messageToSend cm st) (now st))"
proof -
  define st1 where "st1 = snd (handleSendMessage_begin cm st)"
  define p where
    "p = \<lparr>p_userRole = userRole st, p_soundEnabled = soundEnabled (chatSettings st),
          p_started = now st\<rparr>"
  define e where "e = JsError ''Error'' ''Request timed out. Please try again.''"
  define st2 where
    "st2 = st1\<lparr>now := now st + 30000, connectionStatus := Error, isLoading := False\<rparr>"
  have b: "handleSendMessage_begin cm st = (Some p, st1)"
    using begin_sends [OF assms(2)] by (simp add: st1_def p_def)
  have n: "now st1 = now st"
    using begin_sends [OF assms(2)] by (simp add: st1_def sendMessage_begin_def)
  have m: "messages st1 = messages st @ [userMessage (messageToSend cm st) (now st)]"
    using begin_sends [OF assms(2)] by (simp add: st1_def)
  have s: "sendMessage_settle r (p_started p) st1 = (Inl e, st2)"
    using settle_timeout [OF assms(1), of "now st" st1] n by (simp add: p_def e_def st2_def)
  have h: "handleSendMessage cm r st = handleSendMessage_settle r p st1"
    using b by (simp add: handleSendMessage_def)
  have f: "handleSendMessage cm r st =
     toast Failure (err_message e) (Some 5000)
       (setMessages (Updater (\<lambda>prevMessages. prevMessages @ [errorMessage e (now st2)]))
          (st2\<lparr>console := console st2 @ [ErrorSending e]\<rparr>))"
    using handle_settle_failure [OF s] h by simp
  have c1: "fst (sendMessage_settle r (now st) st1) =
              Inl (JsError ''Error'' (failure_message Timeout))"
    using s by (simp add: p_def e_def)
  have c2: "now (handleSendMessage cm r st) = now st + 30000"
    by (simp add: f st2_def)
  have c3: "\<not> isLoading (handleSendMessage cm r st)"
    by (simp add: f st2_def)
  have "messages st2 = messages st1"
    by (simp add: st2_def messages_def)
  then have c4: "messages (handleSendMessage cm r st) =
           messages st @
             [userMessage (messageToSend cm st) (now st),
              errorMessage (JsError ''Error'' (failure_message Timeout)) (now st + 30000)]"
    using m by (simp add: f e_def st2_def)
  have c5: "m_isError (errorMessage (JsError ''Error'' (failure_message Timeout))
              (now st + 30000))"
    by (simp add: errorMessage_def)
  have c6: "\<not> m_isError (userMessage (messageToSend cm st) (now st))"
    by (simp add: userMessage_def)
  show ?thesis using c1 c2 c3 c4 c5 c6 unfolding st1_def by blast
qed

theorem C3_timeout_witness:
  "latency silent_remote = None
   \<and> trim (messageToSend (Some ''Hello'') (mount fresh_browser)) \<noteq> []
   \<and> now (handleSendMessage (Some ''Hello'') silent_remote (mount fresh_browser)) = 31000
   \<and> \<not> isLoading (handleSendMessage (Some ''Hello'') silent_remote (mount fresh_browser))
   \<and> messages (handleSendMessage (Some ''Hello'') silent_remote (mount fresh_browser)) =
       [userMessage ''Hello'' 1000,
        errorMessage (JsError ''Error'' ''Request timed out. Please try again.'') 31000]"
proof -
  have l: "latency silent_remote = None"
    by (simp add: silent_remote_def)
  have t: "trim (messageToSend (Some ''Hello'') (mount fresh_browser)) \<noteq> []"
    by (simp add: messageToSend_def trim_plain_hello)
  have n: "now (mount fresh_browser) = 1000" and m: "messages (mount fresh_browser) = []"
    by (simp_all add: mount_def fresh_browser_def load_def getItem_def messages_def)
  show ?thesis
    using l t C3_timeout [OF l t] by (simp add: n m messageToSend_def)
qed

text \<open>
  C4: a failed exchange throws the message of exactly the failure kind that the ordered
  checks of the specification select: the deadline first, then reachability, then a
  non-success status with its status and status text, then any other failure with its
  message.
\<close>

theorem C4_failure_classification:
  assumes "fst (sendMessage_settle r t st) = Inl e"
  shows "e = JsError ''Error'' (failure_message (spec_classify r))"
proof (cases "aborted r")
  case True
  then show ?thesis using assms
    by (auto simp add: settle_fst try_fst catch_fst spec_classify_def)
next
  case live: False
  show ?thesis
  proof (cases "settles r")
    case (Rejects m)
    then show ?thesis using assms live
      by (auto simp add: settle_fst try_fst catch_fst spec_classify_def rejected_status_def
          underlying_message_def)
  next
    case (Resolves resp)
    show ?thesis
    proof (cases "ok resp")
      case False
      then show ?thesis using assms live Resolves
        by (auto simp add: settle_fst try_fst catch_fst spec_classify_def rejected_status_def
            or_else_nonempty)
    next
      case True
      then show ?thesis using assms live Resolves
        by (cases "body resp")
           (auto simp add: settle_fst try_fst catch_fst spec_classify_def rejected_status_def
            underlying_message_def)
    qed
  qed
qed

theorem C4_failure_classification_witness:
  "fst (sendMessage_settle failing_remote 1000 (mount fresh_browser)) =
     Inl (JsError ''Error'' ''Server error: 500 Internal Server Error'')
   \<and> spec_classify failing_remote = ServerError 500 ''Internal Server Error''
   \<and> JsError ''Error'' ''Server error: 500 Internal Server Error'' =
       JsError ''Error'' (failure_message (spec_classify failing_remote))"
proof -
  have f: "fst (sendMessage_settle failing_remote 1000 (mount fresh_browser)) =
     Inl (JsError ''Error'' ''Server error: 500 Internal Server Error'')"
    by (simp add: settle_fst try_fst catch_fst failing_remote_def aborted_def timeout_ms_def
        ok_def show_nat_500 or_else_nonempty)
  have c: "spec_classify failing_remote = ServerError 500 ''Internal Server Error''"
    by (simp add: spec_classify_def failing_remote_def aborted_def timeout_ms_def
        rejected_status_def ok_def)
  show ?thesis using f c C4_failure_classification [OF f] by simp
qed

text \<open>
  C5: the connection status is \<open>Connected\<close> after the first render; a call of
  \<^verbatim>\<open>sendMessage\<close> sets it to \<open>Connecting\<close>; and when the call has settled it is
  \<open>Connected\<close> if the call returned a reply and \<open>Error\<close> if it threw.
\<close>

theorem C5_connection_status:
  "connectionStatus (mount b) = Connected
   \<and> connectionStatus (sendMessage_begin msg rl st) = Connecting
   \<and> connectionStatus (snd (sendMessage_settle r t st)) =
       (case fst (sendMessage_settle r t st) of Inr rep \<Rightarrow> Connected | Inl e \<Rightarrow> Error)"
  by (simp add: mount_def sendMessage_begin_def sendMessage_settle_def sendMessage_try_def
      sendMessage_catch_def Let_def
      split: prod.splits sum.splits body.splits settle.splits)

text \<open>
  C6: when the text to send does not trim to the empty string, the part of
  \<^verbatim>\<open>handleSendMessage\<close> that runs before the exchange settles appends one user message,
  whose text is the text as given, and sends one request, whose message is the trimmed
  text. However the exchange settles, the timeline then holds that user message followed
  by one message of the assistant.
\<close>

theorem C6_user_message_appended:
  assumes "trim (messageToSend cm st) \<noteq> []"
  shows "\<exists>p st1. handleSendMessage_begin cm st = (Some p, st1)
       \<and> isLoading st1
       \<and> messages st1 = messages st @ [userMessage (messageToSend cm st) (now st)]
       \<and> m_sender (userMessage (messageToSend cm st) (now st)) = User
       \<and> m_text (userMessage (messageToSend cm st) (now st)) = messageToSend cm st
       \<and> sent st1 = sent st @
            [\<lparr>q_message = trim (messageToSend cm st), q_role = userRole st,
              q_timestamp = now st\<rparr>]
       \<and> (\<forall>r. \<exists>x. messages (handleSendMessage_settle r p st1) =
                     messages st @ [userMessage (messageToSend cm st) (now st), x]
                   \<and> m_sender x = Bot)"
proof -
  define p where
    "p = \<lparr>p_userRole = userRole st, p_soundEnabled = soundEnabled (chatSettings st),
          p_started = now st\<rparr>"
  define st1 where
    "st1 = sendMessage_begin (messageToSend cm st) (userRole st)
        ((setMessages
            (Updater (\<lambda>prevMessages.
               prevMessages @ [userMessage (messageToSend cm st) (now st)])) st)
           \<lparr>inputValue := []\<rparr>)"
  have b: "handleSendMessage_begin cm st = (Some p, st1)"
    using begin_sends [OF assms] by (simp add: p_def st1_def)
  have l: "isLoading st1"
    by (simp add: st1_def sendMessage_begin_def)
  have m: "messages st1 = messages st @ [userMessage (messageToSend cm st) (now st)]"
    by (simp add: st1_def)
  have u: "m_sender (userMessage (messageToSend cm st) (now st)) = User"
          "m_text (userMessage (messageToSend cm st) (now st)) = messageToSend cm st"
    by (simp_all add: userMessage_def)
  have q: "sent st1 = sent st @
            [\<lparr>q_message = trim (messageToSend cm st), q_role = userRole st,
              q_timestamp = now st\<rparr>]"
    by (simp add: st1_def sendMessage_begin_def)
  have a: "\<exists>x. messages (handleSendMessage_settle r p st1) =
                     messages st @ [userMessage (messageToSend cm st) (now st), x]
                   \<and> m_sender x = Bot" for r
  proof (cases "sendMessage_settle r (p_started p) st1")
    case (Pair res st2)
    have m2: "messages st2 = messages st1"
      using messages_sendMessage_settle [of r "p_started p" st1] Pair by simp
    show ?thesis
    proof (cases res)
      case (Inl e)
      have "messages (handleSendMessage_settle r p st1) =
              messages st1 @ [errorMessage e (now st2)]"
        using handle_settle_failure [of r p st1 e st2] Pair Inl m2 by simp
      moreover have "m_sender (errorMessage e (now st2)) = Bot"
        by (simp add: errorMessage_def)
      ultimately show ?thesis using m by simp
    next
      case (Inr rep)
      have "messages (handleSendMessage_settle r p st1) = messages st1 @ [botMessage rep]"
        using handle_settle_success [of r p st1 rep st2] Pair Inr m2
        by (simp add: Let_def split: option.splits)
      moreover have "m_sender (botMessage rep) = Bot"
        by (simp add: botMessage_def)
      ultimately show ?thesis using m by simp
    qed
  qed
  show ?thesis using b l m u q a by blast
qed

theorem C6_user_message_appended_witness:
  "trim (messageToSend (Some ''  Hello  '') (mount fresh_browser)) \<noteq> []
   \<and> (\<exists>p st1. handleSendMessage_begin (Some ''  Hello  '') (mount fresh_browser) = (Some p, st1)
       \<and> isLoading st1
       \<and> messages st1 = [userMessage ''  Hello  '' 1000]
       \<and> m_text (userMessage ''  Hello  '' 1000) = ''  Hello  ''
       \<and> sent st1 = [\<lparr>q_message = ''Hello'', q_role = None, q_timestamp = 1000\<rparr>])"
proof -
  have t: "trim (messageToSend (Some ''  Hello  '') (mount fresh_browser)) \<noteq> []"
    by (simp add: messageToSend_def trim_hello)
  have n: "now (mount fresh_browser) = 1000" and m: "messages (mount fresh_browser) = []"
    and s: "sent (mount fresh_browser) = []" and u: "userRole (mount fresh_browser) = None"
    by (simp_all add: mount_def fresh_browser_def load_def getItem_def messages_def
        userRole_def)
  obtain p st1 where
    "handleSendMessage_begin (Some ''  Hello  '') (mount fresh_browser) = (Some p, st1)"
    "isLoading st1"
    "messages st1 = [userMessage ''  Hello  '' 1000]"
    "m_text (userMessage ''  Hello  '' 1000) = ''  Hello  ''"
    "sent st1 = [\<lparr>q_message = ''Hello'', q_role = None, q_timestamp = 1000\<rparr>]"
    using C6_user_message_appended [OF t]
    by (auto simp add: n m s u messageToSend_def trim_hello)
  then show ?thesis using t by blast
qed

text \<open>
  C7: when the text to send trims to the empty string, \<^verbatim>\<open>handleSendMessage\<close> returns at
  once: the whole state, the timeline and the list of requests sent included, is
  unchanged, and no continuation is left pending.
\<close>

theorem C7_blank_send_is_noop:
  assumes "trim (messageToSend customMessage st) = []"
  shows "handleSendMessage_begin customMessage st = (None, st)
       \<and> handleSendMessage customMessage r st = st"
  using assms by (simp add: handleSendMessage_begin_def handleSendMessage_def truthy_def)

theorem C7_blank_send_is_noop_witness:
  "trim (messageToSend (Some ''   '') (mount fresh_browser)) = []
   \<and> handleSendMessage_begin (Some ''   '') (mount fresh_browser) = (None, mount fresh_browser)
   \<and> handleSendMessage (Some ''   '') silent_remote (mount fresh_browser) = mount fresh_browser"
proof -
  have b: "trim (messageToSend (Some ''   '') (mount fresh_browser)) = []"
    by (simp add: messageToSend_def trim_blank)
  show ?thesis
    using b C7_blank_send_is_noop [OF b, of silent_remote] by simp
qed

text \<open>
  C8: when the stored timeline is empty (no entry, or the JSON text of the empty list),
  the first click that opens the dialog makes the timeline exactly one welcome message of
  the assistant and saves that timeline, so that the entry in storage is its JSON text
  whenever the storage accepts the write. A click on a state whose timeline is not empty
  changes the timeline neither in memory nor in storage.
\<close>

theorem C8_welcome_once:
  assumes "chatMessages_entry b = None \<or> chatMessages_entry b = Some (Json [])"
  shows "messages (mount b) = []
       \<and> toggleChatDialog (mount b) =
           setMessages (Plain [welcomeMessage (time b)]) ((mount b)\<lparr>isOpen := True\<rparr>)
       \<and> isOpen (toggleChatDialog (mount b))
       \<and> messages (toggleChatDialog (mount b)) = [welcomeMessage (time b)]
       \<and> m_sender (welcomeMessage (time b)) = Bot
       \<and> (storage_writable b \<longrightarrow>
            entry (messagesLS (toggleChatDialog (mount b))) =
              Some (Json [welcomeMessage (time b)]))
       \<and> (\<forall>st. messages st \<noteq> [] \<longrightarrow> messagesLS (toggleChatDialog st) = messagesLS st)"
proof -
  have e: "messages (mount b) = []"
    using assms
    by (auto simp add: mount_def load_def getItem_def messages_def split: prod.splits)
  have c: "\<not> isOpen (mount b)" and n: "now (mount b) = time b"
    and w: "writable (mount b) = storage_writable b"
    by (simp_all add: mount_def split: prod.splits)
  have t: "toggleChatDialog (mount b) =
             setMessages (Plain [welcomeMessage (time b)]) ((mount b)\<lparr>isOpen := True\<rparr>)"
    using e c n by (simp add: toggleChatDialog_def)
  have c1: "isOpen (toggleChatDialog (mount b))"
    by (simp add: t)
  have c2: "messages (toggleChatDialog (mount b)) = [welcomeMessage (time b)]"
    by (simp add: t)
  have c3: "entry (messagesLS (toggleChatDialog (mount b))) =
              Some (Json [welcomeMessage (time b)])" if "storage_writable b"
    using that w by (simp add: t setMessages_def setStoredValue_def setItem_def Let_def)
  have c4: "m_sender (welcomeMessage (time b)) = Bot"
    by (simp add: welcomeMessage_def)
  have c5: "messagesLS (toggleChatDialog st) = messagesLS st" if "messages st \<noteq> []" for st
    using that by (simp add: toggleChatDialog_def Let_def)
  show ?thesis using e t c1 c2 c3 c4 c5 by blast
qed

theorem C8_welcome_once_witness:
  "(chatMessages_entry fresh_browser = None
      \<or> chatMessages_entry fresh_browser = Some (Json []))
   \<and> storage_writable fresh_browser
   \<and> messages (toggleChatDialog (mount fresh_browser)) = [welcomeMessage 1000]
   \<and> entry (messagesLS (toggleChatDialog (mount fresh_browser))) =
       Some (Json [welcomeMessage 1000])
   \<and> messages (toggleChatDialog (toggleChatDialog (mount fresh_browser))) \<noteq> []
   \<and> messagesLS (toggleChatDialog (toggleChatDialog (toggleChatDialog (mount fresh_browser)))) =
       messagesLS (toggleChatDialog (mount fresh_browser))"
proof -
  have a: "chatMessages_entry fresh_browser = None
      \<or> chatMessages_entry fresh_browser = Some (Json [])"
    and w: "storage_writable fresh_browser" and n: "time fresh_browser = 1000"
    by (simp_all add: fresh_browser_def)
  note c = C8_welcome_once [OF a, unfolded n]
  have c2: "messages (toggleChatDialog (mount fresh_browser)) = [welcomeMessage 1000]"
    using c by blast
  have c3: "entry (messagesLS (toggleChatDialog (mount fresh_browser))) =
       Some (Json [welcomeMessage 1000])"
    using c w by blast
  have o: "messages (toggleChatDialog (mount fresh_browser)) \<noteq> []"
    using c2 by simp
  have k: "messagesLS (toggleChatDialog (toggleChatDialog (mount fresh_browser))) =
             messagesLS (toggleChatDialog (mount fresh_browser))"
    using c o by blast
  then have o2: "messages (toggleChatDialog (toggleChatDialog (mount fresh_browser))) \<noteq> []"
    using o by (simp add: messages_def)
  then have "messagesLS (toggleChatDialog (toggleChatDialog (toggleChatDialog (mount fresh_browser)))) =
       messagesLS (toggleChatDialog (toggleChatDialog (mount fresh_browser)))"
    using c by blast
  with k have k3: "messagesLS (toggleChatDialog (toggleChatDialog (toggleChatDialog (mount fresh_browser)))) =
       messagesLS (toggleChatDialog (mount fresh_browser))"
    by simp
  show ?thesis using a w c2 c3 o2 k3 by blast
qed

text \<open>
  C9, as the specification states it: after a successful exchange a notification is
  emitted whenever the detected role differs from the selected role, an absent detected
  role included. Here the user's role is student, the reply carries no detected role, and
  no toast is shown.
\<close>

theorem C9_counterexample:
  "userRole (mount student_browser) = Some ''student''
   \<and> None \<noteq> userRole (mount student_browser)
   \<and> fst (sendMessage_settle (answering_remote None) 1000
            (snd (handleSendMessage_begin (Some ''Hello'') (mount student_browser)))) =
       Inr \<lparr>r_text = ''Hi!'', r_role = None, r_confidence = Some (9 / 10),
             r_timestamp = 1120\<rparr>
   \<and> toasts (handleSendMessage (Some ''Hello'') (answering_remote None)
               (mount student_browser)) = []"
proof -
  let ?st = "mount student_browser"
  have u: "userRole ?st = Some ''student''" and n: "now ?st = 1000" and t: "toasts ?st = []"
    by (simp_all add: mount_def student_browser_def fresh_browser_def load_def getItem_def
        userRole_def)
  have ne: "trim (messageToSend (Some ''Hello'') ?st) \<noteq> []"
    by (simp add: messageToSend_def trim_plain_hello)
  define st1 where "st1 = snd (handleSendMessage_begin (Some ''Hello'') ?st)"
  define p where
    "p = \<lparr>p_userRole = userRole ?st, p_soundEnabled = soundEnabled (chatSettings ?st),
          p_started = now ?st\<rparr>"
  have b: "handleSendMessage_begin (Some ''Hello'') ?st = (Some p, st1)"
    using begin_sends [OF ne] by (simp add: st1_def p_def)
  have n1: "now st1 = 1000" and t1: "toasts st1 = []"
    using begin_sends [OF ne] n t by (simp_all add: st1_def sendMessage_begin_def)
  obtain st2 where s: "sendMessage_settle (answering_remote None) 1000 st1 =
      (Inr \<lparr>r_text = ''Hi!'', r_role = None, r_confidence = Some (9 / 10),
             r_timestamp = 1120\<rparr>, st2)" and t2: "toasts st2 = []"
    using n1 t1
    by (simp add: sendMessage_settle_def sendMessage_try_def await_fetch_def aborted_def
        elapsed_def timeout_ms_def answering_remote_def ok_def Let_def)
  have "handleSendMessage (Some ''Hello'') (answering_remote None) ?st =
          handleSendMessage_settle (answering_remote None) p st1"
    using b by (simp add: handleSendMessage_def)
  then have "toasts (handleSendMessage (Some ''Hello'') (answering_remote None) ?st) = []"
    using handle_settle_success [of "answering_remote None" p st1 _ st2] s t2 n
    by (simp add: p_def playNotificationSound_def)
  then show ?thesis using u s by (simp add: st1_def)
qed

text \<open>
  C9, amended: after a successful exchange, a context-detected toast is shown if and only
  if the reply carries a detected role that is a non-empty string and differs from the
  role selected when the message was sent; the selected role is not changed.
\<close>

theorem C9_context_notification:
  assumes "trim (messageToSend cm st) \<noteq> []"
    and "fst (sendMessage_settle r (now st) (snd (handleSendMessage_begin cm st))) = Inr rep"
  shows "toasts (handleSendMessage cm r st) =
           toasts st @
             (case r_role rep of
                None \<Rightarrow> []
              | Some detected \<Rightarrow>
                  if detected \<noteq> [] \<and> Some detected \<noteq> userRole st
                  then [Toast Info (''Detected context: '' @ detected) (Some 3000)]
                  else [])
       \<and> userRoleLS (handleSendMessage cm r st) = userRoleLS st"
proof -
  define st1 where "st1 = snd (handleSendMessage_begin cm st)"
  define p where
    "p = \<lparr>p_userRole = userRole st, p_soundEnabled = soundEnabled (chatSettings st),
          p_started = now st\<rparr>"
  have b: "handleSendMessage_begin cm st = (Some p, st1)"
    using begin_sends [OF assms(1)] by (simp add: st1_def p_def)
  have f1: "toasts st1 = toasts st" "userRoleLS st1 = userRoleLS st"
    using begin_sends [OF assms(1)] by (simp_all add: st1_def sendMessage_begin_def)
  obtain st2 where s: "sendMessage_settle r (p_started p) st1 = (Inr rep, st2)"
    using assms(2) by (cases "sendMessage_settle r (now st) st1") (simp add: st1_def p_def)
  have "snd (sendMessage_settle r (p_started p) st1) = st2"
    using s by simp
  then have f2: "toasts st2 = toasts st1" "userRoleLS st2 = userRoleLS st1"
    by (auto simp add: sendMessage_settle_def sendMessage_try_def sendMessage_catch_def Let_def
        split: prod.splits sum.splits body.splits settle.splits if_splits)
  have h: "handleSendMessage cm r st = handleSendMessage_settle r p st1"
    using b by (simp add: handleSendMessage_def)
  show ?thesis
    using handle_settle_success [OF s] f1 f2
    by (simp add: h Let_def playNotificationSound_def truthy_def p_def split: option.splits)
qed

theorem C9_context_notification_witness:
  "trim (messageToSend (Some ''Hello'') (mount student_browser)) \<noteq> []
   \<and> fst (sendMessage_settle (answering_remote (Some ''parent'')) (now (mount student_browser))
            (snd (handleSendMessage_begin (Some ''Hello'') (mount student_browser)))) =
       Inr \<lparr>r_text = ''Hi!'', r_role = Some ''parent'', r_confidence = Some (9 / 10),
             r_timestamp = 1120\<rparr>
   \<and> toasts (handleSendMessage (Some ''Hello'') (answering_remote (Some ''parent''))
               (mount student_browser)) =
       [Toast Info ''Detected context: parent'' (Some 3000)]
   \<and> userRoleLS (handleSendMessage (Some ''Hello'') (answering_remote (Some ''parent''))
               (mount student_browser)) = userRoleLS (mount student_browser)"
proof -
  let ?st = "mount student_browser"
  have u: "userRole ?st = Some ''student''" and n: "now ?st = 1000" and t: "toasts ?st = []"
    by (simp_all add: mount_def student_browser_def fresh_browser_def load_def getItem_def
        userRole_def)
  have ne: "trim (messageToSend (Some ''Hello'') ?st) \<noteq> []"
    by (simp add: messageToSend_def trim_plain_hello)
  have n1: "now (snd (handleSendMessage_begin (Some ''Hello'') ?st)) = 1000"
    using begin_sends [OF ne] n by (simp add: sendMessage_begin_def)
  have s: "fst (sendMessage_settle (answering_remote (Some ''parent'')) (now ?st)
            (snd (handleSendMessage_begin (Some ''Hello'') ?st))) =
       Inr \<lparr>r_text = ''Hi!'', r_role = Some ''parent'', r_confidence = Some (9 / 10),
             r_timestamp = 1120\<rparr>"
    using n n1
    by (simp add: settle_fst try_fst aborted_def elapsed_def timeout_ms_def
        answering_remote_def ok_def)
  show ?thesis
    using ne s C9_context_notification [OF ne s] by (simp add: u t)
qed

text \<open>
  C10: \<^verbatim>\<open>clearChatHistory\<close> empties the timeline; the role and the settings, in memory
  and in storage, and the other state slices are what they were.
\<close>

theorem C10_clear_history_frame:
  "messages (clearChatHistory st) = []
   \<and> userRoleLS (clearChatHistory st) = userRoleLS st
   \<and> chatSettingsLS (clearChatHistory st) = chatSettingsLS st
   \<and> isOpen (clearChatHistory st) = isOpen st
   \<and> inputValue (clearChatHistory st) = inputValue st
   \<and> isLoading (clearChatHistory st) = isLoading st
   \<and> connectionStatus (clearChatHistory st) = connectionStatus st
   \<and> sent (clearChatHistory st) = sent st"
  by (simp add: clearChatHistory_def)

section \<open>What a send leaves in storage\<close>

text \<open>
  X1: a send whose text is not blank, with the storage accepting writes, leaves under the
  key of the timeline the text \<^verbatim>\<open>undefined\<close>, since the setter is called with a function;
  a page loaded from that entry starts with an empty timeline.
\<close>

theorem X1_send_leaves_unparsable_entry:
  assumes "trim (messageToSend cm st) \<noteq> []" and "writable st"
  shows "entry (messagesLS (handleSendMessage cm r st)) = Some (Text ''undefined'')
       \<and> messages (mount (b\<lparr>chatMessages_entry :=
                               entry (messagesLS (handleSendMessage cm r st))\<rparr>)) = []"
proof -
  define st1 where "st1 = snd (handleSendMessage_begin cm st)"
  define p where
    "p = \<lparr>p_userRole = userRole st, p_soundEnabled = soundEnabled (chatSettings st),
          p_started = now st\<rparr>"
  have b: "handleSendMessage_begin cm st = (Some p, st1)"
    using begin_sends [OF assms(1)] by (simp add: st1_def p_def)
  have w: "writable st1"
    using begin_sends [OF assms(1)] assms(2) by (simp add: st1_def sendMessage_begin_def)
  have h: "handleSendMessage cm r st = handleSendMessage_settle r p st1"
    using b by (simp add: handleSendMessage_def)
  have e: "entry (messagesLS (handleSendMessage cm r st)) = Some (Text ''undefined'')"
    using settle_entry [OF w] by (simp add: h)
  have "messages (mount (b\<lparr>chatMessages_entry := Some (Text ''undefined'')\<rparr>)) = []"
    by (simp add: mount_def load_def getItem_def truthy_def messages_def split: prod.splits)
  then show ?thesis using e by simp
qed

theorem X1_send_leaves_unparsable_entry_witness:
  "trim (messageToSend (Some ''Hello'') (mount fresh_browser)) \<noteq> []
   \<and> writable (mount fresh_browser)
   \<and> entry (messagesLS (handleSendMessage (Some ''Hello'') (answering_remote None)
              (mount fresh_browser))) = Some (Text ''undefined'')
   \<and> messages (mount (fresh_browser\<lparr>chatMessages_entry :=
         entry (messagesLS (handleSendMessage (Some ''Hello'') (answering_remote None)
              (mount fresh_browser)))\<rparr>)) = []"
proof -
  have t: "trim (messageToSend (Some ''Hello'') (mount fresh_browser)) \<noteq> []"
    by (simp add: messageToSend_def trim_plain_hello)
  have w: "writable (mount fresh_browser)"
    by (simp add: mount_def fresh_browser_def load_def getItem_def)
  show ?thesis
    using t w X1_send_leaves_unparsable_entry [OF t w] by blast
qed

end
